theory Spec2Isabelle
  imports Main
begin

section \<open>Data model\<close>

text \<open>
  Go strings are byte sequences; \<open>string\<close> is a list of 8-bit characters. A Go \<open>error\<close>
  is represented by the text its \<open>Error()\<close> method yields, and a possibly-nil error by
  \<open>error option\<close> (\<open>None\<close> is \<open>nil\<close>).
\<close>

type_synonym error = string

text \<open>A Go call either returns or panics; \<open>panic(err)\<close> carries the error.\<close>

datatype 'a outcome = Returned 'a | Panicked error

text \<open>
  The \<open>ipamv1.IpAddress\<close> resource: the fields of its object metadata, spec and status
  that \<open>shared.go\<close> reads or writes.
\<close>

record IpAddressSpec =
  spec_Ref :: string
  spec_Name :: string

record IpAddressStatus =
  status_Address :: string
  status_Name :: string
  status_Provider :: string

record IpAddress =
  Namespace :: string
  Name :: string
  UID :: string
  ResourceVersion :: string
  Spec :: IpAddressSpec
  Status :: IpAddressStatus

text \<open>
  The \<open>corev1.Event\<close> built by \<open>MakeEvent\<close>. The two timestamps, both read from the
  wall clock by \<open>metav1.Now()\<close>, are left out.
\<close>

record ObjectReference =
  ref_Name :: string
  ref_Namespace :: string
  ref_APIVersion :: string
  ref_UID :: string
  ref_Kind :: string
  ref_ResourceVersion :: string

record Event =
  GenerateName :: string
  InvolvedObject :: ObjectReference
  Message :: string
  Type :: string

text \<open>The anonymous struct handed to the name template.\<close>

record NameData =
  data_Tag :: string
  data_Namespace :: string
  data_Name :: string

text \<open>
  The collaborators are interfaces; each is represented by what its methods answer.
  A Go method with results \<open>(v, err)\<close> answers a pair. The IPAM backend \<open>ipam.Ipam\<close>:
\<close>

record ipam_backend =
  Assign :: "string \<Rightarrow> string \<times> error option"
  Unassign :: "string \<Rightarrow> error option"
  Search :: "string \<Rightarrow> bool \<Rightarrow> string list \<times> error option"

text \<open>
  \<open>SharedController\<close>. \<open>Kubernetes\<close> stands for \<open>CoreV1().Events(ns).Create(event)\<close> and
  \<open>IpamClient\<close> for \<open>IpamV1().IpAddresses(ns).Update(a)\<close>; of both only the error is
  used by the code. \<open>NameTemplate\<close> is the compiled template, given by what its
  \<open>Execute\<close> writes to the buffer and returns for the data it is handed.
\<close>

record SharedController =
  Kubernetes :: "string \<Rightarrow> Event \<Rightarrow> error option"
  IpamClient :: "string \<Rightarrow> IpAddress \<Rightarrow> error option"
  Ipam :: ipam_backend
  Tag :: string
  NameTemplate :: "NameData \<Rightarrow> string \<times> error option"
  IpamName :: string

section \<open>NameFor\<close>

definition NameFor :: "SharedController \<Rightarrow> IpAddress \<Rightarrow> string outcome" where
  "NameFor c a =
     (if spec_Name (Spec a) \<noteq> [] then Returned (spec_Name (Spec a))
      else
        (case NameTemplate c
                \<lparr>data_Tag = Tag c, data_Namespace = Namespace a, data_Name = Name a\<rparr> of
           (buffer, Some err) \<Rightarrow> Panicked err
         | (buffer, None) \<Rightarrow> Returned buffer))"

text \<open>
  A fragment of Go's \<open>text/template\<close>, enough to write concrete name templates: literal
  text and field actions \<open>{{.Field}}\<close>. \<open>Parse\<close> answers \<open>None\<close> for a template text
  outside the fragment. \<open>Execute\<close> evaluates the nodes against the struct of \<open>NameFor\<close>,
  writing to the buffer as it goes; a field the struct does not have stops it with an
  error (the position prefix of Go's error text is left out).
\<close>

datatype node = TextNode string | FieldNode string

definition text_nodes :: "string \<Rightarrow> node list" where
  "text_nodes s = (if s = [] then [] else [TextNode s])"

definition is_letter :: "char \<Rightarrow> bool" where
  "is_letter ch =
     (ch \<in> set ''abcdefghijklmnopqrstuvwxyzABCDEFGHIJKLMNOPQRSTUVWXYZ_'')"

definition is_digit :: "char \<Rightarrow> bool" where
  "is_digit ch = (ch \<in> set ''0123456789'')"

definition field_of :: "string \<Rightarrow> string option" where
  "field_of action =
     (case action of
        [] \<Rightarrow> None
      | dot # ident \<Rightarrow>
          if dot = CHR ''.'' \<and> ident \<noteq> [] \<and> is_letter (hd ident)
             \<and> list_all (\<lambda>ch. is_letter ch \<or> is_digit ch) ident
          then Some ident else None)"

fun scan :: "bool \<Rightarrow> string \<Rightarrow> string \<Rightarrow> node list option" where
  "scan inAction acc [] = (if inAction then None else Some (text_nodes acc))"
| "scan inAction acc [ch] = (if inAction then None else Some (text_nodes (acc @ [ch])))"
| "scan inAction acc (ch # ch' # cs) =
     (if \<not> inAction then
        (if ch = CHR ''{'' \<and> ch' = CHR ''{''
         then map_option (\<lambda>ns. text_nodes acc @ ns) (scan True [] cs)
         else scan False (acc @ [ch]) (ch' # cs))
      else
        (if ch = CHR ''}'' \<and> ch' = CHR ''}''
         then (case field_of acc of
                 None \<Rightarrow> None
               | Some f \<Rightarrow> map_option (\<lambda>ns. FieldNode f # ns) (scan False [] cs))
         else scan True (acc @ [ch]) (ch' # cs)))"

definition Parse :: "string \<Rightarrow> node list option" where
  "Parse text = scan False [] text"

fun Execute :: "node list \<Rightarrow> NameData \<Rightarrow> string \<times> error option" where
  "Execute [] d = ([], None)"
| "Execute (TextNode s # ns) d = (case Execute ns d of (out, err) \<Rightarrow> (s @ out, err))"
| "Execute (FieldNode f # ns) d =
     (if f = ''Tag'' then (case Execute ns d of (out, err) \<Rightarrow> (data_Tag d @ out, err))
      else if f = ''Namespace''
        then (case Execute ns d of (out, err) \<Rightarrow> (data_Namespace d @ out, err))
      else if f = ''Name''
        then (case Execute ns d of (out, err) \<Rightarrow> (data_Name d @ out, err))
      else ([], Some (''can't evaluate field '' @ f
                        @ '' in type struct { Tag string; Namespace string; Name string }'')))"

section \<open>Formatting\<close>

text \<open>
  \<open>fmt.Sprintf\<close> and the \<open>logrus\<close> formatters are called with constant formats whose
  verbs are \<open>%s\<close> on strings and \<open>%d\<close> on a length: the operands are substituted
  verbatim, the length in decimal. The messages below are written as the resulting
  concatenations; \<open>quoted\<close> puts an operand between the apostrophes of the format.
\<close>

definition quoted :: "string \<Rightarrow> string" where
  "quoted s = [CHR 0x27] @ s @ [CHR 0x27]"

fun decimal :: "nat \<Rightarrow> string" where
  "decimal n =
     (if n < 10 then [''0123456789'' ! n]
      else decimal (n div 10) @ [''0123456789'' ! (n mod 10)])"

text \<open>
  \<open>LogEventAndFail\<close> calls \<open>fmt.Errorf(message)\<close>: the message is the \<^emph>\<open>format\<close>, and
  there are no operands. What follows is \<open>doPrintf\<close> of package \<open>fmt\<close> for an empty
  operand list: text is copied up to a \<open>%\<close>; then flags, an argument index, a width and
  a precision are read, and the verb is reported as \<open>%!v(MISSING)\<close> (or \<open>(BADINDEX)\<close>),
  a \<open>%\<close> at the very end as \<open>%!(NOVERB)\<close>, and \<open>%%\<close> as \<open>%\<close>. Positions in the format
  are represented by the rest of the format still to be read.
\<close>

definition tooLarge :: "nat \<Rightarrow> bool" where
  "tooLarge x = (x > 1000000)"

definition digit_value :: "char \<Rightarrow> nat" where
  "digit_value ch = of_char ch - 48"

fun parsenum :: "nat \<Rightarrow> bool \<Rightarrow> string \<Rightarrow> nat \<times> bool \<times> string" where
  "parsenum num isnum [] = (num, isnum, [])"
| "parsenum num isnum (ch # cs) =
     (if is_digit ch then
        (if tooLarge num then (0, False, [])
         else parsenum (num * 10 + digit_value ch) True cs)
      else (num, isnum, ch # cs))"

text \<open>\<open>parseArgNumber\<close> answers the index, the number of bytes to skip and whether it is well formed.\<close>

definition parseArgNumber :: "string \<Rightarrow> int \<times> nat \<times> bool" where
  "parseArgNumber format =
     (if length format < 3 then (0, 1, False)
      else if CHR '']'' \<notin> set (tl format) then (0, 1, False)
      else
        (let i = 1 + length (takeWhile (\<lambda>ch. ch \<noteq> CHR '']'') (tl format))
         in case parsenum 0 False (take (i - 1) (tl format)) of
              (width, ok, rest) \<Rightarrow>
                if \<not> ok \<or> rest \<noteq> [] then (0, i + 1, False)
                else (int width - 1, i + 1, True)))"

text \<open>
  \<open>argNumber\<close> with no operands (\<open>numArgs = 0\<close>): it answers the new \<open>goodArgNum\<close>, the
  rest of the format and whether an index was found.
\<close>

definition argNumber :: "bool \<Rightarrow> string \<Rightarrow> bool \<times> string \<times> bool" where
  "argNumber goodArgNum format =
     (if format = [] \<or> hd format \<noteq> CHR ''['' then (goodArgNum, format, False)
      else
        (case parseArgNumber format of
           (index, wid, ok) \<Rightarrow>
             if ok \<and> 0 \<le> index \<and> index < 0 then (goodArgNum, drop wid format, True)
             else (False, drop wid format, ok)))"

text \<open>
  \<open>utf8.DecodeRuneInString\<close>, answering the rune in its UTF-8 encoding (as \<open>writeRune\<close>
  writes it) and its width; \<open>first\<close> gives, for a leading byte, the length of the
  sequence and the range accepted for the second byte.
\<close>

definition RuneError :: string where
  "RuneError = [CHR 0xEF, CHR 0xBF, CHR 0xBD]"

definition first :: "nat \<Rightarrow> (nat \<times> nat \<times> nat) option" where
  "first b =
     (if 0xC2 \<le> b \<and> b \<le> 0xDF then Some (2, 0x80, 0xBF)
      else if b = 0xE0 then Some (3, 0xA0, 0xBF)
      else if 0xE1 \<le> b \<and> b \<le> 0xEC then Some (3, 0x80, 0xBF)
      else if b = 0xED then Some (3, 0x80, 0x9F)
      else if 0xEE \<le> b \<and> b \<le> 0xEF then Some (3, 0x80, 0xBF)
      else if b = 0xF0 then Some (4, 0x90, 0xBF)
      else if 0xF1 \<le> b \<and> b \<le> 0xF3 then Some (4, 0x80, 0xBF)
      else if b = 0xF4 then Some (4, 0x80, 0x8F)
      else None)"

definition continuation :: "char \<Rightarrow> bool" where
  "continuation ch = (0x80 \<le> (of_char ch :: nat) \<and> (of_char ch :: nat) \<le> 0xBF)"

definition DecodeRuneInString :: "string \<Rightarrow> string \<times> nat" where
  "DecodeRuneInString s =
     (case s of
        [] \<Rightarrow> (RuneError, 0)
      | s0 # _ \<Rightarrow>
          if (of_char s0 :: nat) < 0x80 then ([s0], 1)
          else
            (case first (of_char s0) of
               None \<Rightarrow> (RuneError, 1)
             | Some (sz, lo, hi) \<Rightarrow>
                 if length s < sz then (RuneError, 1)
                 else if (of_char (s ! 1) :: nat) < lo \<or> hi < (of_char (s ! 1) :: nat)
                   then (RuneError, 1)
                 else if sz \<le> 2 then (take 2 s, 2)
                 else if \<not> continuation (s ! 2) then (RuneError, 1)
                 else if sz \<le> 3 then (take 3 s, 3)
                 else if \<not> continuation (s ! 3) then (RuneError, 1)
                 else (take 4 s, 4)))"

definition is_flag :: "char \<Rightarrow> bool" where
  "is_flag ch = (ch \<in> set ''#0+- '')"

text \<open>
  The width and the precision of a directive: each answers what it writes (a \<open>*\<close> finds
  no operand), \<open>goodArgNum\<close>, the rest of the format and \<open>afterIndex\<close>.
\<close>

definition width :: "bool \<Rightarrow> bool \<Rightarrow> string \<Rightarrow> string \<times> bool \<times> string \<times> bool" where
  "width goodArgNum afterIndex format =
     (if format \<noteq> [] \<and> hd format = CHR ''*''
      then (''%!(BADWIDTH)'', goodArgNum, tl format, False)
      else
        (case parsenum 0 False format of
           (wid, widPresent, rest) \<Rightarrow>
             ([], goodArgNum \<and> \<not> (afterIndex \<and> widPresent), rest, afterIndex)))"

definition precision :: "bool \<Rightarrow> bool \<Rightarrow> string \<Rightarrow> string \<times> bool \<times> string \<times> bool" where
  "precision goodArgNum afterIndex format =
     (if format \<noteq> [] \<and> hd format = CHR ''.''
      then
        (case argNumber (goodArgNum \<and> \<not> afterIndex) (tl format) of
           (good, rest, found) \<Rightarrow>
             if rest \<noteq> [] \<and> hd rest = CHR ''*''
             then (''%!(BADPREC)'', good, tl rest, False)
             else
               (case parsenum 0 False rest of
                  (prec, precPresent, rest') \<Rightarrow> ([], good, rest', found)))
      else ([], goodArgNum, format, afterIndex))"

text \<open>One directive, read after its \<open>%\<close>: what is written and the rest of the format.\<close>

definition verb :: "string \<Rightarrow> string \<times> string" where
  "verb format =
     (case argNumber True (dropWhile is_flag format) of
        (good1, f1, afterIndex1) \<Rightarrow>
     (case width good1 afterIndex1 f1 of
        (out2, good2, f2, afterIndex2) \<Rightarrow>
     (case precision good2 afterIndex2 f2 of
        (out3, good3, f3, afterIndex3) \<Rightarrow>
     (case (if \<not> afterIndex3 then argNumber good3 f3 else (good3, f3, afterIndex3)) of
        (good4, f4, afterIndex4) \<Rightarrow>
          if f4 = [] then (out2 @ out3 @ ''%!(NOVERB)'', [])
          else
            (case DecodeRuneInString f4 of
               (v, n) \<Rightarrow>
                 (out2 @ out3 @
                    (if v = ''%'' then ''%''
                     else if \<not> good4 then ''%!'' @ v @ ''(BADINDEX)''
                     else ''%!'' @ v @ ''(MISSING)''),
                  drop n f4))))))"

function doPrintf :: "string \<Rightarrow> string" where
  "doPrintf [] = []"
| "doPrintf (ch # format) =
     (if ch \<noteq> CHR ''%'' then ch # doPrintf format
      else (case verb format of (out, rest) \<Rightarrow> out @ doPrintf rest))"
  by pat_completeness auto
termination
proof (relation "measure length")
  show "wf (measure length)"
    by simp
next
  fix ch :: char and format :: string
  show "(format, ch # format) \<in> measure length"
    by simp
next
  fix ch :: char and format out rest :: string
  assume v: "(out, rest) = verb format"
  have pn: "length r \<le> length s" if "parsenum num isnum s = (k, b, r)"
    for num isnum s k b r
    using that by (induction s arbitrary: num isnum) (auto simp: le_SucI split: if_splits)
  have an: "length r \<le> length s" if "argNumber g s = (g', r, b)" for g s g' r b
    using that by (auto simp: argNumber_def split: prod.splits if_splits)
  have wd: "length r \<le> length s" if "width g a s = (w, g', r, a')" for g a s w g' r a'
    using that by (auto simp: width_def split: prod.splits if_splits dest: pn)
  have pr: "length r \<le> length s" if "precision g a s = (w, g', r, a')"
    for g a s w g' r a'
    using that by (fastforce simp: precision_def split: prod.splits if_splits dest: pn an)
  obtain g1 f1 a1 where 1: "argNumber True (dropWhile is_flag format) = (g1, f1, a1)"
    by (cases "argNumber True (dropWhile is_flag format)") auto
  obtain o2 g2 f2 a2 where 2: "width g1 a1 f1 = (o2, g2, f2, a2)"
    by (cases "width g1 a1 f1") auto
  obtain o3 g3 f3 a3 where 3: "precision g2 a2 f2 = (o3, g3, f3, a3)"
    by (cases "precision g2 a2 f2") auto
  obtain g4 f4 a4 where 4:
    "(if \<not> a3 then argNumber g3 f3 else (g3, f3, a3)) = (g4, f4, a4)"
    by (cases "if \<not> a3 then argNumber g3 f3 else (g3, f3, a3)") auto
  have "length f1 \<le> length (dropWhile is_flag format)"
    using 1 by (rule an)
  also have "\<dots> \<le> length format"
    by (rule length_dropWhile_le)
  finally have l1: "length f1 \<le> length format" .
  have l2: "length f2 \<le> length f1"
    using 2 by (rule wd)
  have l3: "length f3 \<le> length f2"
    using 3 by (rule pr)
  have l4: "length f4 \<le> length f3"
    using 4 by (auto split: if_splits dest: an)
  have "length rest \<le> length f4"
    using v [symmetric] by (auto simp: verb_def 1 2 3 4 split: if_splits prod.splits)
  with l1 l2 l3 l4 show "(rest, ch # format) \<in> measure length"
    by simp
qed

definition Errorf :: "string \<Rightarrow> error" where
  "Errorf format = doPrintf format"

section \<open>Effects\<close>

text \<open>
  What a handler does besides returning is recorded, in order, as the list of calls it
  made to its collaborators, each with the answer it got: the log lines, the calls to
  the IPAM backend, the update of the resource in the store and the creation of events.
\<close>

datatype level = Debug | Info | Error

datatype call =
    Log level string
  | IpamAssign string "string \<times> error option"
  | IpamSearch string bool "string list \<times> error option"
  | IpamUnassign string "error option"
  | IpAddressesUpdate string IpAddress "error option"
  | EventsCreate string Event "error option"

fun is_ipam_call :: "call \<Rightarrow> bool" where
  "is_ipam_call (IpamAssign name r) = True"
| "is_ipam_call (IpamSearch query exact r) = True"
| "is_ipam_call (IpamUnassign address r) = True"
| "is_ipam_call other = False"

fun is_unassign_call :: "call \<Rightarrow> bool" where
  "is_unassign_call (IpamUnassign address r) = True"
| "is_unassign_call other = False"

fun is_update_call :: "call \<Rightarrow> bool" where
  "is_update_call (IpAddressesUpdate ns a r) = True"
| "is_update_call other = False"

fun is_event_call :: "call \<Rightarrow> bool" where
  "is_event_call (EventsCreate ns e r) = True"
| "is_event_call other = False"

section \<open>Events and failures\<close>

definition MakeEvent ::
  "SharedController \<Rightarrow> IpAddress \<Rightarrow> string \<Rightarrow> bool \<Rightarrow> call list \<times> error option" where
  "MakeEvent c obj message warn =
     (let t = (if warn then ''Warning'' else ''Normal'');
          event =
            \<lparr>GenerateName = Name obj,
             InvolvedObject =
               \<lparr>ref_Name = Name obj,
                ref_Namespace = Namespace obj,
                ref_APIVersion = ''v1'',
                ref_UID = UID obj,
                ref_Kind = ''IpAddress'',
                ref_ResourceVersion = ResourceVersion obj\<rparr>,
             Message = message,
             Type = t\<rparr>;
          err = Kubernetes c (Namespace obj) event
      in ([EventsCreate (Namespace obj) event err], err))"

text \<open>
  \<open>LogEventAndFail\<close> logs the message, creates the Warning event (dropping the error of
  \<open>MakeEvent\<close>) and returns \<open>fmt.Errorf(message)\<close>, which is never \<open>nil\<close>.
\<close>

definition LogEventAndFail ::
  "SharedController \<Rightarrow> IpAddress \<Rightarrow> string \<Rightarrow> call list \<times> error" where
  "LogEventAndFail c obj message =
     (Log Error message # fst (MakeEvent c obj message True), Errorf message)"

text \<open>\<open>return c.LogEventAndFail(a, message)\<close>, after the calls \<open>t\<close> made so far.\<close>

definition return_failure ::
  "call list \<Rightarrow> call list \<times> error \<Rightarrow> call list \<times> error option outcome" where
  "return_failure t failure = (t @ fst failure, Returned (Some (snd failure)))"

section \<open>The handlers\<close>

text \<open>
  \<open>IpAddressCreatedOrUpdated\<close>. The branch on \<open>Spec.Ref\<close> either returns early (\<open>Inl\<close>)
  or leaves the address \<open>ip\<close> for the code after it (\<open>Inr\<close>). \<open>a.DeepCopy()\<close> is the
  value \<open>a\<close>; the copy with its three status fields set is \<open>a2\<close>.
\<close>

definition IpAddressCreatedOrUpdated ::
  "SharedController \<Rightarrow> IpAddress \<Rightarrow> call list \<times> error option outcome" where
  "IpAddressCreatedOrUpdated c a =
     (let t0 = [Log Debug (''processing address '' @ Namespace a @ ''-'' @ Name a)] in
      case NameFor c a of
        Panicked e \<Rightarrow> (t0, Panicked e)
      | Returned oname \<Rightarrow>
          if status_Address (Status a) = [] then
            (let t1 = t0 @ [Log Debug ''address is unassigned''] in
             case
               (if spec_Ref (Spec a) = [] then
                  (case Assign (Ipam c) oname of
                     (ip, err) \<Rightarrow>
                       (let t2 = t1 @ [IpamAssign oname (ip, err)] in
                        case err of
                          Some e \<Rightarrow>
                            Inl (return_failure t2 (LogEventAndFail c a
                              (''could not assign new address for ''
                                 @ quoted (Namespace a @ ''-'' @ Name a) @ '': '' @ e)))
                        | None \<Rightarrow> Inr (t2, ip)))
                else
                  (case Search (Ipam c) (spec_Ref (Spec a)) True of
                     (addresses, err) \<Rightarrow>
                       (let t2 = t1 @ [IpamSearch (spec_Ref (Spec a)) True (addresses, err)] in
                        case err of
                          Some e \<Rightarrow>
                            Inl (return_failure t2 (LogEventAndFail c a
                              (''error searching for address matching ''
                                 @ quoted (spec_Ref (Spec a)) @ '' for ''
                                 @ quoted (Namespace a @ ''-'' @ Name a) @ '': '' @ e)))
                        | None \<Rightarrow>
                            if length addresses = 0 then
                              Inl (return_failure t2 (LogEventAndFail c a
                                (''did not find address matching ''
                                   @ quoted (spec_Ref (Spec a)) @ '' for ''
                                   @ quoted (Namespace a @ ''-'' @ Name a))))
                            else if length addresses > 1 then
                              Inl (return_failure t2 (LogEventAndFail c a
                                (''found '' @ decimal (length addresses)
                                   @ '' addresses matching ''
                                   @ quoted (spec_Ref (Spec a)) @ '' for ''
                                   @ quoted (Namespace a @ ''-'' @ Name a)
                                   @ '', need exactly one'')))
                            else Inr (t2, addresses ! 0)))) of
               Inl returned \<Rightarrow> returned
             | Inr (t2, ip) \<Rightarrow>
                 (let t3 = t2 @ [Log Info (''assigned '' @ ip @ '' for ''
                                   @ quoted (Namespace a @ ''-'' @ Name a))];
                      a2 = a\<lparr>Status := (Status a)
                             \<lparr>status_Address := ip,
                              status_Name := oname,
                              status_Provider := IpamName c\<rparr>\<rparr>;
                      err = IpamClient c (Namespace a) a2;
                      t4 = t3 @ [IpAddressesUpdate (Namespace a) a2 err]
                  in case err of
                       Some e \<Rightarrow>
                         return_failure t4 (LogEventAndFail c a
                           (''assigned address '' @ ip @ '' for ''
                              @ quoted (Namespace a @ ''-'' @ Name a)
                              @ '', but could not update object: '' @ e))
                     | None \<Rightarrow> (t4, Returned None)))
          else (t0 @ [Log Debug ''nothing to do''], Returned None))"

definition IpAddressDeleted ::
  "SharedController \<Rightarrow> IpAddress \<Rightarrow> call list \<times> error option outcome" where
  "IpAddressDeleted c a =
     (let t0 = [Log Debug (''processing deleted address '' @ Namespace a @ ''-'' @ Name a)] in
      if status_Provider (Status a) \<noteq> [] \<and> status_Provider (Status a) \<noteq> IpamName c then
        (t0 @ [Log Debug (''ignoring address, created by provider ''
                 @ quoted (status_Provider (Status a)))],
         Returned None)
      else if status_Address (Status a) = [] then
        (t0 @ [Log Debug ''nothing to do: address was never assigned''], Returned None)
      else if spec_Ref (Spec a) \<noteq> [] then
        (t0 @ [Log Debug ''nothing to do: address was a reference''], Returned None)
      else
        (let err = Unassign (Ipam c) (status_Address (Status a));
             t1 = t0 @ [IpamUnassign (status_Address (Status a)) err]
         in case err of
              Some e \<Rightarrow>
                return_failure t1 (LogEventAndFail c a
                  (''could not unassign address '' @ status_Address (Status a) @ '' for ''
                     @ quoted (Namespace a @ ''-'' @ Name a) @ '' from IPAM: '' @ e))
            | None \<Rightarrow>
                (t1 @ [Log Debug (''address '' @ status_Address (Status a) @ '' for ''
                         @ quoted (Namespace a @ ''-'' @ Name a)
                         @ '' successfully unassigned'')],
                 Returned None)))"

section \<open>Reading the calls and the messages\<close>

text \<open>
  An answer of the backend on which the creation path stops before persisting: an error
  from \<open>Assign\<close> or \<open>Search\<close>, or a \<open>Search\<close> with no match or more than one.
\<close>

fun failed_allocation :: "call \<Rightarrow> bool" where
  "failed_allocation (IpamAssign name (ip, err)) = (err \<noteq> None)"
| "failed_allocation (IpamSearch query exact (addresses, err)) =
     (err \<noteq> None \<or> length addresses = 0 \<or> length addresses > 1)"
| "failed_allocation other = False"

fun failed_update :: "call \<Rightarrow> bool" where
  "failed_update (IpAddressesUpdate ns a err) = (err \<noteq> None)"
| "failed_update other = False"

text \<open>A Warning event about the resource \<open>a\<close> carrying the message \<open>m\<close>.\<close>

fun warning_event :: "IpAddress \<Rightarrow> string \<Rightarrow> call \<Rightarrow> bool" where
  "warning_event a m (EventsCreate ns e r) =
     (ns = Namespace a \<and> Type e = ''Warning'' \<and> Message e = m
      \<and> ref_Name (InvolvedObject e) = Name a
      \<and> ref_Namespace (InvolvedObject e) = Namespace a
      \<and> ref_UID (InvolvedObject e) = UID a)"
| "warning_event a m other = False"

text \<open>\<open>mentions text s\<close>: \<open>s\<close> occurs in \<open>text\<close> (Go's \<open>strings.Contains\<close>).\<close>

fun has_prefix :: "string \<Rightarrow> string \<Rightarrow> bool" where
  "has_prefix text [] = True"
| "has_prefix [] (ch # s) = False"
| "has_prefix (ch' # text) (ch # s) = (ch' = ch \<and> has_prefix text s)"

fun mentions :: "string \<Rightarrow> string \<Rightarrow> bool" where
  "mentions [] s = (s = [])"
| "mentions (ch # text) s = (has_prefix (ch # text) s \<or> mentions text s)"

text \<open>
  On the path that reaches the store, \<open>obtained\<close> says how the address \<open>ip\<close> came from
  the backend (a fresh \<open>Assign\<close> for the resolved name when \<open>Spec.Ref\<close> is empty, the
  single match of \<open>Search\<close> otherwise), \<open>allocation_call\<close> is that call as it is
  recorded, and \<open>written\<close> is the copy \<open>a2\<close> handed to \<open>Update\<close>.
\<close>

definition obtained :: "SharedController \<Rightarrow> IpAddress \<Rightarrow> string \<Rightarrow> string \<Rightarrow> bool" where
  "obtained c a oname ip =
     (if spec_Ref (Spec a) = [] then Assign (Ipam c) oname = (ip, None)
      else Search (Ipam c) (spec_Ref (Spec a)) True = ([ip], None))"

definition allocation_call :: "IpAddress \<Rightarrow> string \<Rightarrow> string \<Rightarrow> call" where
  "allocation_call a oname ip =
     (if spec_Ref (Spec a) = [] then IpamAssign oname (ip, None)
      else IpamSearch (spec_Ref (Spec a)) True ([ip], None))"

definition written :: "SharedController \<Rightarrow> IpAddress \<Rightarrow> string \<Rightarrow> string \<Rightarrow> IpAddress" where
  "written c a oname ip =
     a\<lparr>Status := (Status a)\<lparr>status_Address := ip, status_Name := oname,
                              status_Provider := IpamName c\<rparr>\<rparr>"

section \<open>Example configurations\<close>

text \<open>
  A controller whose template is \<open>{{.Tag}}-{{.Namespace}}-{{.Name}}\<close> and whose backend,
  store and event sink all answer without error, and a freshly created resource.
\<close>

definition example_controller :: SharedController where
  "example_controller =
     \<lparr>Kubernetes = (\<lambda>ns event. None),
      IpamClient = (\<lambda>ns a. None),
      Ipam = \<lparr>Assign = (\<lambda>name. (''10.0.0.5'', None)),
              Unassign = (\<lambda>address. None),
              Search = (\<lambda>query exact. ([''10.0.0.7''], None))\<rparr>,
      Tag = ''prod'',
      NameTemplate =
        Execute [FieldNode ''Tag'', TextNode ''-'', FieldNode ''Namespace'', TextNode ''-'',
                 FieldNode ''Name''],
      IpamName = ''netbox''\<rparr>"

definition example_resource :: IpAddress where
  "example_resource =
     \<lparr>Namespace = ''default'',
      Name = ''foo'',
      UID = ''4f1c'',
      ResourceVersion = ''1'',
      Spec = \<lparr>spec_Ref = [], spec_Name = []\<rparr>,
      Status = \<lparr>status_Address = [], status_Name = [], status_Provider = []\<rparr>\<rparr>"

text \<open>The same resource once an address has been assigned to it by this controller.\<close>

definition assigned_resource :: IpAddress where
  "assigned_resource =
     example_resource\<lparr>Status :=
       \<lparr>status_Address = ''10.0.0.5'', status_Name = ''prod-default-foo'',
        status_Provider = ''netbox''\<rparr>\<rparr>"

text \<open>A controller whose template names a field the data does not have: \<open>{{.Host}}\<close>.\<close>

definition misconfigured_controller :: SharedController where
  "misconfigured_controller =
     example_controller\<lparr>NameTemplate := Execute [FieldNode ''Host'']\<rparr>"

text \<open>A backend that refuses to assign, with a percent sign in its error text.\<close>

definition full_pool_controller :: SharedController where
  "full_pool_controller =
     example_controller\<lparr>Ipam := (Ipam example_controller)
       \<lparr>Assign := (\<lambda>name. ([], Some ''pool is 100% full''))\<rparr>\<rparr>"

text \<open>
  A backend that assigns a link-local IPv6 address with its zone, and a store that
  rejects the update.
\<close>

definition zone_controller :: SharedController where
  "zone_controller =
     example_controller
       \<lparr>IpamClient := (\<lambda>ns a. Some ''conflict''),
        Ipam := (Ipam example_controller)\<lparr>Assign := (\<lambda>name. (''fe80::1%eth0'', None))\<rparr>\<rparr>"

text \<open>A resource that borrows an address by reference, and a backend with two matches.\<close>

definition reference_resource :: IpAddress where
  "reference_resource =
     example_resource\<lparr>Spec := \<lparr>spec_Ref = ''host=x'', spec_Name = []\<rparr>\<rparr>"

definition ambiguous_controller :: SharedController where
  "ambiguous_controller =
     example_controller\<lparr>Ipam := (Ipam example_controller)
       \<lparr>Search := (\<lambda>query exact. ([''10.0.0.7'', ''10.0.0.8''], None))\<rparr>\<rparr>"

text \<open>
  Assigned resources whose \<open>Status.Provider\<close> is empty, names another provider, or names
  this controller while the address is a reference.
\<close>

definition unlabelled_resource :: IpAddress where
  "unlabelled_resource =
     example_resource\<lparr>Status :=
       \<lparr>status_Address = ''10.0.0.5'', status_Name = ''prod-default-foo'',
        status_Provider = []\<rparr>\<rparr>"

definition foreign_resource :: IpAddress where
  "foreign_resource =
     example_resource\<lparr>Status :=
       \<lparr>status_Address = ''10.0.0.5'', status_Name = ''prod-default-foo'',
        status_Provider = ''other''\<rparr>\<rparr>"

definition borrowed_resource :: IpAddress where
  "borrowed_resource =
     reference_resource\<lparr>Status :=
       \<lparr>status_Address = ''10.0.0.7'', status_Name = ''prod-default-foo'',
        status_Provider = ''netbox''\<rparr>\<rparr>"

section \<open>The branches of the creation handler\<close>

text \<open>
  \<open>decimal\<close> is a single recursive equation; it is unfolded only where a proof asks for
  it.
\<close>

declare decimal.simps [simp del]

lemmas failure_defs = return_failure_def LogEventAndFail_def MakeEvent_def Let_def

lemmas example_defs =
  example_controller_def example_resource_def assigned_resource_def
  misconfigured_controller_def reference_resource_def foreign_resource_def

lemmas Errorf_defs =
  Errorf_def verb_def argNumber_def width_def precision_def is_flag_def is_digit_def
  DecodeRuneInString_def

text \<open>What \<open>IpAddressCreatedOrUpdated\<close> does and returns, one lemma for each way through it.\<close>

lemma created_panic:
  "NameFor c a = Panicked e \<Longrightarrow>
   IpAddressCreatedOrUpdated c a =
     ([Log Debug (''processing address '' @ Namespace a @ ''-'' @ Name a)], Panicked e)"
  by (simp add: IpAddressCreatedOrUpdated_def)

lemma created_assigned:
  "NameFor c a = Returned oname \<Longrightarrow> status_Address (Status a) \<noteq> [] \<Longrightarrow>
   IpAddressCreatedOrUpdated c a =
     ([Log Debug (''processing address '' @ Namespace a @ ''-'' @ Name a),
       Log Debug ''nothing to do''], Returned None)"
  by (simp add: IpAddressCreatedOrUpdated_def)

lemma created_assign_error:
  "NameFor c a = Returned oname \<Longrightarrow> status_Address (Status a) = [] \<Longrightarrow>
   spec_Ref (Spec a) = [] \<Longrightarrow> Assign (Ipam c) oname = (ip, Some e) \<Longrightarrow>
   IpAddressCreatedOrUpdated c a =
     return_failure
       [Log Debug (''processing address '' @ Namespace a @ ''-'' @ Name a),
        Log Debug ''address is unassigned'',
        IpamAssign oname (ip, Some e)]
       (LogEventAndFail c a
          (''could not assign new address for ''
             @ quoted (Namespace a @ ''-'' @ Name a) @ '': '' @ e))"
  by (simp add: IpAddressCreatedOrUpdated_def)

lemma created_search_error:
  "NameFor c a = Returned oname \<Longrightarrow> status_Address (Status a) = [] \<Longrightarrow>
   spec_Ref (Spec a) \<noteq> [] \<Longrightarrow>
   Search (Ipam c) (spec_Ref (Spec a)) True = (addresses, Some e) \<Longrightarrow>
   IpAddressCreatedOrUpdated c a =
     return_failure
       [Log Debug (''processing address '' @ Namespace a @ ''-'' @ Name a),
        Log Debug ''address is unassigned'',
        IpamSearch (spec_Ref (Spec a)) True (addresses, Some e)]
       (LogEventAndFail c a
          (''error searching for address matching ''
             @ quoted (spec_Ref (Spec a)) @ '' for ''
             @ quoted (Namespace a @ ''-'' @ Name a) @ '': '' @ e))"
  by (simp add: IpAddressCreatedOrUpdated_def)

lemma created_no_match:
  "NameFor c a = Returned oname \<Longrightarrow> status_Address (Status a) = [] \<Longrightarrow>
   spec_Ref (Spec a) \<noteq> [] \<Longrightarrow>
   Search (Ipam c) (spec_Ref (Spec a)) True = ([], None) \<Longrightarrow>
   IpAddressCreatedOrUpdated c a =
     return_failure
       [Log Debug (''processing address '' @ Namespace a @ ''-'' @ Name a),
        Log Debug ''address is unassigned'',
        IpamSearch (spec_Ref (Spec a)) True ([], None)]
       (LogEventAndFail c a
          (''did not find address matching ''
             @ quoted (spec_Ref (Spec a)) @ '' for ''
             @ quoted (Namespace a @ ''-'' @ Name a)))"
  by (simp add: IpAddressCreatedOrUpdated_def)

lemma created_many_matches:
  "NameFor c a = Returned oname \<Longrightarrow> status_Address (Status a) = [] \<Longrightarrow>
   spec_Ref (Spec a) \<noteq> [] \<Longrightarrow>
   Search (Ipam c) (spec_Ref (Spec a)) True = (addresses, None) \<Longrightarrow>
   length addresses > 1 \<Longrightarrow>
   IpAddressCreatedOrUpdated c a =
     return_failure
       [Log Debug (''processing address '' @ Namespace a @ ''-'' @ Name a),
        Log Debug ''address is unassigned'',
        IpamSearch (spec_Ref (Spec a)) True (addresses, None)]
       (LogEventAndFail c a
          (''found '' @ decimal (length addresses) @ '' addresses matching ''
             @ quoted (spec_Ref (Spec a)) @ '' for ''
             @ quoted (Namespace a @ ''-'' @ Name a) @ '', need exactly one''))"
  by (auto simp: IpAddressCreatedOrUpdated_def Let_def)

lemma created_update_error:
  "NameFor c a = Returned oname \<Longrightarrow> status_Address (Status a) = [] \<Longrightarrow>
   obtained c a oname ip \<Longrightarrow>
   IpamClient c (Namespace a) (written c a oname ip) = Some e \<Longrightarrow>
   IpAddressCreatedOrUpdated c a =
     return_failure
       [Log Debug (''processing address '' @ Namespace a @ ''-'' @ Name a),
        Log Debug ''address is unassigned'',
        allocation_call a oname ip,
        Log Info (''assigned '' @ ip @ '' for '' @ quoted (Namespace a @ ''-'' @ Name a)),
        IpAddressesUpdate (Namespace a) (written c a oname ip) (Some e)]
       (LogEventAndFail c a
          (''assigned address '' @ ip @ '' for ''
             @ quoted (Namespace a @ ''-'' @ Name a)
             @ '', but could not update object: '' @ e))"
  by (cases "spec_Ref (Spec a) = []")
     (simp_all add: IpAddressCreatedOrUpdated_def obtained_def allocation_call_def written_def)

lemma created_success:
  "NameFor c a = Returned oname \<Longrightarrow> status_Address (Status a) = [] \<Longrightarrow>
   obtained c a oname ip \<Longrightarrow>
   IpamClient c (Namespace a) (written c a oname ip) = None \<Longrightarrow>
   IpAddressCreatedOrUpdated c a =
     ([Log Debug (''processing address '' @ Namespace a @ ''-'' @ Name a),
       Log Debug ''address is unassigned'',
       allocation_call a oname ip,
       Log Info (''assigned '' @ ip @ '' for '' @ quoted (Namespace a @ ''-'' @ Name a)),
       IpAddressesUpdate (Namespace a) (written c a oname ip) None],
      Returned None)"
  by (cases "spec_Ref (Spec a) = []")
     (simp_all add: IpAddressCreatedOrUpdated_def obtained_def allocation_call_def written_def)

lemma allocation_call_simps:
  "\<not> failed_allocation (allocation_call a oname ip)"
  "\<not> failed_update (allocation_call a oname ip)"
  "is_ipam_call (allocation_call a oname ip)"
  "\<not> is_unassign_call (allocation_call a oname ip)"
  "\<not> is_update_call (allocation_call a oname ip)"
  "\<not> is_event_call (allocation_call a oname ip)"
  "\<not> warning_event a' m (allocation_call a oname ip)"
  "allocation_call a oname ip \<noteq> Log l m"
  by (simp_all add: allocation_call_def)

lemmas created_branches =
  created_panic created_assigned created_assign_error created_search_error created_no_match
  created_many_matches created_update_error created_success

text \<open>Every run of the handler takes one of these eight ways.\<close>

lemma created_cases
  [case_names panic assigned assign_error search_error no_match many_matches update_error success]:
  fixes c :: SharedController and a :: IpAddress
  obtains
    (panic) e where "NameFor c a = Panicked e"
  | (assigned) oname where
      "NameFor c a = Returned oname" "status_Address (Status a) \<noteq> []"
  | (assign_error) oname ip e where
      "NameFor c a = Returned oname" "status_Address (Status a) = []"
      "spec_Ref (Spec a) = []" "Assign (Ipam c) oname = (ip, Some e)"
  | (search_error) oname addresses e where
      "NameFor c a = Returned oname" "status_Address (Status a) = []"
      "spec_Ref (Spec a) \<noteq> []"
      "Search (Ipam c) (spec_Ref (Spec a)) True = (addresses, Some e)"
  | (no_match) oname where
      "NameFor c a = Returned oname" "status_Address (Status a) = []"
      "spec_Ref (Spec a) \<noteq> []"
      "Search (Ipam c) (spec_Ref (Spec a)) True = ([], None)"
  | (many_matches) oname addresses where
      "NameFor c a = Returned oname" "status_Address (Status a) = []"
      "spec_Ref (Spec a) \<noteq> []"
      "Search (Ipam c) (spec_Ref (Spec a)) True = (addresses, None)"
      "length addresses > 1"
  | (update_error) oname ip e where
      "NameFor c a = Returned oname" "status_Address (Status a) = []"
      "obtained c a oname ip"
      "IpamClient c (Namespace a) (written c a oname ip) = Some e"
  | (success) oname ip where
      "NameFor c a = Returned oname" "status_Address (Status a) = []"
      "obtained c a oname ip"
      "IpamClient c (Namespace a) (written c a oname ip) = None"
proof (cases "NameFor c a")
  case (Panicked e)
  then show ?thesis by (rule panic)
next
  case n: (Returned oname)
  show ?thesis
  proof (cases "status_Address (Status a) = []")
    case False
    with n show ?thesis by (rule assigned)
  next
    case u: True
    have persist: thesis if ob: "obtained c a oname ip" for ip
    proof (cases "IpamClient c (Namespace a) (written c a oname ip)")
      case None
      with n u ob show ?thesis by (rule success)
    next
      case (Some e)
      with n u ob show ?thesis by (rule update_error)
    qed
    show ?thesis
    proof (cases "spec_Ref (Spec a) = []")
      case r: True
      obtain ip err where as: "Assign (Ipam c) oname = (ip, err)"
        by (cases "Assign (Ipam c) oname") auto
      show ?thesis
      proof (cases err)
        case None
        with as r show ?thesis by (intro persist [of ip]) (simp add: obtained_def)
      next
        case (Some e)
        with as have "Assign (Ipam c) oname = (ip, Some e)" by simp
        with n u r show ?thesis by (rule assign_error)
      qed
    next
      case r: False
      obtain addresses err where
        se: "Search (Ipam c) (spec_Ref (Spec a)) True = (addresses, err)"
        by (cases "Search (Ipam c) (spec_Ref (Spec a)) True") auto
      show ?thesis
      proof (cases err)
        case (Some e)
        with se have "Search (Ipam c) (spec_Ref (Spec a)) True = (addresses, Some e)"
          by simp
        with n u r show ?thesis by (rule search_error)
      next
        case ok: None
        consider "addresses = []" | "length addresses > 1" | ip where "addresses = [ip]"
          by (cases addresses; cases "tl addresses") auto
        then show ?thesis
        proof cases
          case 1
          with se ok have "Search (Ipam c) (spec_Ref (Spec a)) True = ([], None)"
            by simp
          with n u r show ?thesis by (rule no_match)
        next
          case 2
          from se ok have "Search (Ipam c) (spec_Ref (Spec a)) True = (addresses, None)"
            by simp
          with n u r show ?thesis using 2 by (rule many_matches)
        next
          case (3 ip)
          with r se ok show ?thesis by (intro persist [of ip]) (simp add: obtained_def)
        qed
      qed
    qed
  qed
qed

section \<open>Failures and their reports\<close>

text \<open>
  Text without a \<open>%\<close> passes through \<open>fmt.Errorf\<close> unchanged, also as the beginning of a
  longer format.
\<close>

lemma doPrintf_verbatim: "CHR ''%'' \<notin> set xs \<Longrightarrow> doPrintf (xs @ ys) = xs @ doPrintf ys"
  by (induction xs) auto

lemma Errorf_verbatim: "CHR ''%'' \<notin> set m \<Longrightarrow> Errorf m = m"
  using doPrintf_verbatim [of m "[]"] by (simp add: Errorf_def)

lemma has_prefix_append: "has_prefix (s @ post) s"
  by (induction s) auto

lemma mentions_append: "mentions (pre @ s @ post) s"
proof (induction pre)
  case Nil
  show ?case using has_prefix_append [of s post] by (cases "s @ post") auto
next
  case (Cons ch pre)
  then show ?case by simp
qed

text \<open>
  A handler that returns an error has logged a message, created a Warning event about
  the resource with that message, and returns \<open>fmt.Errorf\<close> of it.
\<close>

lemma failure_reports_created:
  assumes "snd (IpAddressCreatedOrUpdated c a) = Returned (Some e)"
  shows "\<exists>m. Log Error m \<in> set (fst (IpAddressCreatedOrUpdated c a))
             \<and> list_ex (warning_event a m) (fst (IpAddressCreatedOrUpdated c a))
             \<and> e = Errorf m"
proof (cases c a rule: created_cases)
  case (panic e)
  with assms show ?thesis by (simp add: created_panic)
next
  case (assigned oname)
  with assms show ?thesis by (simp add: created_assigned)
next
  case (assign_error oname ip e)
  with assms show ?thesis by (auto simp: created_assign_error failure_defs)
next
  case (search_error oname addresses e)
  with assms show ?thesis by (auto simp: created_search_error failure_defs)
next
  case (no_match oname)
  with assms show ?thesis by (auto simp: created_no_match failure_defs)
next
  case (many_matches oname addresses)
  with assms show ?thesis by (auto simp: created_many_matches failure_defs)
next
  case (update_error oname ip e)
  with assms show ?thesis by (auto simp: created_update_error failure_defs allocation_call_simps)
next
  case (success oname ip)
  with assms show ?thesis by (simp add: created_success)
qed

lemma failure_reports_deleted:
  assumes "snd (IpAddressDeleted c a) = Returned (Some e)"
  shows "\<exists>m. Log Error m \<in> set (fst (IpAddressDeleted c a))
             \<and> list_ex (warning_event a m) (fst (IpAddressDeleted c a))
             \<and> e = Errorf m"
  using assms
  by (auto simp: IpAddressDeleted_def failure_defs split: option.splits if_splits)

text \<open>
  When the update of the store fails, the handler returns an error and releases
  nothing; the error text contains the address as long as the address has no \<open>%\<close>.
\<close>

lemma persistence_failure_no_release:
  assumes "list_ex failed_update (fst (IpAddressCreatedOrUpdated c a))"
  shows "(\<exists>e. snd (IpAddressCreatedOrUpdated c a) = Returned (Some e))
         \<and> \<not> list_ex is_unassign_call (fst (IpAddressCreatedOrUpdated c a))"
proof (cases c a rule: created_cases)
  case (panic e)
  with assms show ?thesis by (simp add: created_panic)
next
  case (assigned oname)
  with assms show ?thesis by (simp add: created_assigned)
next
  case (assign_error oname ip e)
  with assms show ?thesis by (simp add: created_assign_error failure_defs)
next
  case (search_error oname addresses e)
  with assms show ?thesis by (simp add: created_search_error failure_defs)
next
  case (no_match oname)
  with assms show ?thesis by (simp add: created_no_match failure_defs)
next
  case (many_matches oname addresses)
  with assms show ?thesis by (simp add: created_many_matches failure_defs)
next
  case (update_error oname ip e)
  then show ?thesis by (simp add: created_update_error failure_defs allocation_call_simps)
next
  case (success oname ip)
  with assms show ?thesis by (simp add: created_success allocation_call_simps)
qed


lemma persistence_failure_mentions:
  assumes "NameFor c a = Returned oname" and "status_Address (Status a) = []"
    and "obtained c a oname ip"
    and "IpamClient c (Namespace a) (written c a oname ip) = Some e"
    and "CHR ''%'' \<notin> set ip"
  shows "\<exists>msg. snd (IpAddressCreatedOrUpdated c a) = Returned (Some msg) \<and> mentions msg ip"
proof -
  define rest where
    "rest = '' for '' @ quoted (Namespace a @ ''-'' @ Name a)
              @ '', but could not update object: '' @ e"
  have "snd (IpAddressCreatedOrUpdated c a)
          = Returned (Some (Errorf ((''assigned address '' @ ip) @ rest)))"
    using assms(1-4) by (simp add: created_update_error failure_defs rest_def)
  moreover have "Errorf ((''assigned address '' @ ip) @ rest)
                   = ''assigned address '' @ ip @ doPrintf rest"
    using assms(5) doPrintf_verbatim [of "''assigned address '' @ ip" rest]
    by (simp add: Errorf_def)
  ultimately show ?thesis
    using mentions_append [of "''assigned address ''" ip "doPrintf rest"] by simp
qed

section \<open>Properties\<close>

subsection \<open>The creation handler on an assigned resource\<close>

text \<open>
  C1, as amended. For every resource whose \<open>Status.Address\<close> is non-empty,
  \<open>IpAddressCreatedOrUpdated\<close> makes no call to the IPAM backend (no \<open>Assign\<close>, no
  \<open>Search\<close>, no \<open>Unassign\<close>) and attempts no store update; and it returns success
  exactly when \<open>NameFor\<close> returns a name, which it does whenever \<open>Spec.Name\<close> is set or
  the template renders. Re-delivering an assigned resource is then a no-op.
\<close>

theorem IpAddressCreatedOrUpdated_assigned:
  assumes "status_Address (Status a) \<noteq> []"
  shows "\<not> list_ex is_ipam_call (fst (IpAddressCreatedOrUpdated c a))
         \<and> \<not> list_ex is_update_call (fst (IpAddressCreatedOrUpdated c a))
         \<and> (snd (IpAddressCreatedOrUpdated c a) = Returned None
              \<longleftrightarrow> (\<exists>oname. NameFor c a = Returned oname))"
proof (cases c a rule: created_cases)
  case (panic e)
  then show ?thesis by (simp add: created_panic)
next
  case (assigned oname)
  then show ?thesis by (simp add: created_assigned)
qed (use assms in simp_all)

theorem IpAddressCreatedOrUpdated_assigned_witness:
  "status_Address (Status assigned_resource) \<noteq> []
   \<and> \<not> list_ex is_ipam_call
         (fst (IpAddressCreatedOrUpdated example_controller assigned_resource))
   \<and> \<not> list_ex is_update_call
         (fst (IpAddressCreatedOrUpdated example_controller assigned_resource))
   \<and> snd (IpAddressCreatedOrUpdated example_controller assigned_resource) = Returned None"
proof -
  have h: "status_Address (Status assigned_resource) \<noteq> []"
    by (simp add: example_defs)
  have n: "NameFor example_controller assigned_resource = Returned ''prod-default-foo''"
    by (simp add: NameFor_def example_defs)
  from IpAddressCreatedOrUpdated_assigned [OF h, of example_controller] h n
  show ?thesis by simp
qed

text \<open>
  C1 as it is stated says that every such run returns success. With the template
  \<open>{{.Host}}\<close> and no \<open>Spec.Name\<close>, the run on an assigned resource panics instead:
  the name is resolved before \<open>Status.Address\<close> is looked at.
\<close>

theorem IpAddressCreatedOrUpdated_assigned_counterexample:
  "status_Address (Status assigned_resource) \<noteq> []
   \<and> IpAddressCreatedOrUpdated misconfigured_controller assigned_resource =
       ([Log Debug ''processing address default-foo''],
        Panicked ''can't evaluate field Host in type struct { Tag string; Namespace string; Name string }'')"
  by (simp add: IpAddressCreatedOrUpdated_def NameFor_def example_defs)

subsection \<open>The deletion handler\<close>

text \<open>
  C2. \<open>IpAddressDeleted\<close> calls the backend's \<open>Unassign(Status.Address)\<close> if and only if
  \<open>Status.Provider\<close> is empty or equals this instance's provider tag (the controller's
  \<open>IpamName\<close>), \<open>Status.Address\<close> is non-empty and \<open>Spec.Ref\<close> is empty: the calls it
  makes to the backend are that one call in this case and none in every other, where it
  returns success. In particular a non-empty \<open>Status.Provider\<close> other than \<open>IpamName\<close>
  never triggers \<open>Unassign\<close>, whatever \<open>Status.Address\<close> is, and neither does a non-empty
  \<open>Spec.Ref\<close>, whatever \<open>Status.Provider\<close> is.
\<close>

theorem IpAddressDeleted_unassign_iff:
  "filter is_ipam_call (fst (IpAddressDeleted c a)) =
     (if (status_Provider (Status a) = [] \<or> status_Provider (Status a) = IpamName c)
          \<and> status_Address (Status a) \<noteq> [] \<and> spec_Ref (Spec a) = []
      then [IpamUnassign (status_Address (Status a))
              (Unassign (Ipam c) (status_Address (Status a)))]
      else [])
   \<and> (\<not> ((status_Provider (Status a) = [] \<or> status_Provider (Status a) = IpamName c)
          \<and> status_Address (Status a) \<noteq> [] \<and> spec_Ref (Spec a) = [])
        \<longrightarrow> snd (IpAddressDeleted c a) = Returned None)
   \<and> (status_Provider (Status a) \<noteq> [] \<and> status_Provider (Status a) \<noteq> IpamName c
        \<longrightarrow> \<not> list_ex is_unassign_call (fst (IpAddressDeleted c a)))
   \<and> (spec_Ref (Spec a) \<noteq> []
        \<longrightarrow> \<not> list_ex is_unassign_call (fst (IpAddressDeleted c a)))"
  by (auto simp: IpAddressDeleted_def failure_defs split: option.splits)

theorem IpAddressDeleted_unassign_iff_witness:
  "filter is_ipam_call (fst (IpAddressDeleted example_controller assigned_resource))
     = [IpamUnassign ''10.0.0.5'' None]
   \<and> filter is_ipam_call (fst (IpAddressDeleted example_controller foreign_resource)) = []
   \<and> snd (IpAddressDeleted example_controller foreign_resource) = Returned None
   \<and> \<not> list_ex is_unassign_call (fst (IpAddressDeleted example_controller borrowed_resource))
   \<and> snd (IpAddressDeleted example_controller borrowed_resource) = Returned None"
  using IpAddressDeleted_unassign_iff [of example_controller assigned_resource]
    IpAddressDeleted_unassign_iff [of example_controller foreign_resource]
    IpAddressDeleted_unassign_iff [of example_controller borrowed_resource]
  by (simp add: example_defs borrowed_resource_def)

subsection \<open>The creation handler on an unassigned resource\<close>

text \<open>
  C3. For every unassigned resource, whenever the creation path fails before
  persistence (the run holds a call to \<open>Assign\<close> answered with an error, or a call to
  \<open>Search\<close> answered with an error, with no match or with more than one),
  \<open>IpAddressCreatedOrUpdated\<close> returns a non-nil error and attempts no store update, so
  that \<open>Status.Address\<close> stays empty.
\<close>

theorem IpAddressCreatedOrUpdated_allocation_failure:
  assumes "status_Address (Status a) = []"
    and "list_ex failed_allocation (fst (IpAddressCreatedOrUpdated c a))"
  shows "(\<exists>e. snd (IpAddressCreatedOrUpdated c a) = Returned (Some e))
         \<and> \<not> list_ex is_update_call (fst (IpAddressCreatedOrUpdated c a))"
proof (cases c a rule: created_cases)
  case (panic e)
  with assms show ?thesis by (simp add: created_panic)
next
  case (assigned oname)
  with assms show ?thesis by simp
next
  case (assign_error oname ip e)
  then show ?thesis by (simp add: created_assign_error failure_defs)
next
  case (search_error oname addresses e)
  then show ?thesis by (simp add: created_search_error failure_defs)
next
  case (no_match oname)
  then show ?thesis by (simp add: created_no_match failure_defs)
next
  case (many_matches oname addresses)
  then show ?thesis by (simp add: created_many_matches failure_defs)
next
  case (update_error oname ip e)
  with assms show ?thesis
    by (simp add: created_update_error failure_defs allocation_call_simps)
next
  case (success oname ip)
  with assms show ?thesis
    by (simp add: created_success allocation_call_simps)
qed

text \<open>
  The four failures do show in the run: when \<open>NameFor\<close> has returned the name, an error
  or a wrong number of matches from the backend is a failed allocation of the run.
\<close>

lemma allocation_failure_recorded:
  assumes "status_Address (Status a) = []" and "NameFor c a = Returned oname"
    and "if spec_Ref (Spec a) = [] then snd (Assign (Ipam c) oname) \<noteq> None
         else snd (Search (Ipam c) (spec_Ref (Spec a)) True) \<noteq> None
              \<or> length (fst (Search (Ipam c) (spec_Ref (Spec a)) True)) = 0
              \<or> length (fst (Search (Ipam c) (spec_Ref (Spec a)) True)) > 1"
  shows "list_ex failed_allocation (fst (IpAddressCreatedOrUpdated c a))"
proof (cases c a rule: created_cases)
  case (panic e)
  with assms show ?thesis by simp
next
  case (assigned oname)
  with assms show ?thesis by simp
next
  case (assign_error oname ip e)
  then show ?thesis by (simp add: created_assign_error failure_defs)
next
  case (search_error oname addresses e)
  then show ?thesis by (simp add: created_search_error failure_defs)
next
  case (no_match oname)
  then show ?thesis by (simp add: created_no_match failure_defs)
next
  case (many_matches oname addresses)
  then show ?thesis by (simp add: created_many_matches failure_defs)
next
  case (update_error oname' ip e)
  with assms show ?thesis by (auto simp: obtained_def split: if_splits)
next
  case (success oname' ip)
  with assms show ?thesis by (auto simp: obtained_def split: if_splits)
qed

theorem IpAddressCreatedOrUpdated_allocation_failure_witness:
  "status_Address (Status reference_resource) = []
   \<and> list_ex failed_allocation
        (fst (IpAddressCreatedOrUpdated ambiguous_controller reference_resource))
   \<and> (\<exists>e. snd (IpAddressCreatedOrUpdated ambiguous_controller reference_resource)
             = Returned (Some e))
   \<and> \<not> list_ex is_update_call
         (fst (IpAddressCreatedOrUpdated ambiguous_controller reference_resource))"
proof -
  have h1: "status_Address (Status reference_resource) = []"
    by (simp add: example_defs)
  have n: "NameFor ambiguous_controller reference_resource = Returned ''prod-default-foo''"
    by (simp add: NameFor_def example_defs ambiguous_controller_def)
  have h2: "list_ex failed_allocation
              (fst (IpAddressCreatedOrUpdated ambiguous_controller reference_resource))"
    by (rule allocation_failure_recorded [OF h1 n])
       (simp add: example_defs ambiguous_controller_def)
  from IpAddressCreatedOrUpdated_allocation_failure [OF h1 h2] h1 h2
  show ?thesis by simp
qed

text \<open>
  C4. When \<open>IpAddressCreatedOrUpdated\<close> succeeds on a resource with empty
  \<open>Status.Address\<close>, \<open>NameFor\<close> has returned a name \<open>oname\<close>, the backend has given an
  address \<open>ip\<close> (a fresh \<open>Assign\<close> of \<open>oname\<close> when \<open>Spec.Ref\<close> is empty, the single match
  of \<open>Search(Spec.Ref, true)\<close> otherwise), and exactly one object \<open>a2\<close> has been written
  to the store, accepted by it: the resource with \<open>Status.Address = ip\<close>,
  \<open>Status.Name = oname\<close> and \<open>Status.Provider\<close> this instance's provider tag, the
  controller's \<open>IpamName\<close>, and nothing else changed.
\<close>

theorem IpAddressCreatedOrUpdated_success:
  assumes "status_Address (Status a) = []"
    and "snd (IpAddressCreatedOrUpdated c a) = Returned None"
  shows "\<exists>oname ip a2.
           NameFor c a = Returned oname
           \<and> (if spec_Ref (Spec a) = [] then Assign (Ipam c) oname = (ip, None)
               else Search (Ipam c) (spec_Ref (Spec a)) True = ([ip], None))
           \<and> filter is_update_call (fst (IpAddressCreatedOrUpdated c a))
               = [IpAddressesUpdate (Namespace a) a2 None]
           \<and> status_Address (Status a2) = ip
           \<and> status_Name (Status a2) = oname
           \<and> status_Provider (Status a2) = IpamName c
           \<and> a2\<lparr>Status := Status a\<rparr> = a"
proof (cases c a rule: created_cases)
  case (success oname ip)
  have "filter is_update_call (fst (IpAddressCreatedOrUpdated c a))
          = [IpAddressesUpdate (Namespace a) (written c a oname ip) None]"
    using success by (simp add: created_success allocation_call_simps)
  moreover have "status_Address (Status (written c a oname ip)) = ip"
    "status_Name (Status (written c a oname ip)) = oname"
    "status_Provider (Status (written c a oname ip)) = IpamName c"
    "(written c a oname ip)\<lparr>Status := Status a\<rparr> = a"
    by (simp_all add: written_def)
  moreover have "if spec_Ref (Spec a) = [] then Assign (Ipam c) oname = (ip, None)
               else Search (Ipam c) (spec_Ref (Spec a)) True = ([ip], None)"
    using success by (simp add: obtained_def)
  ultimately show ?thesis
    using success(1) by blast
next
  case (panic e)
  with assms show ?thesis by (simp add: created_panic)
next
  case (assigned oname)
  with assms show ?thesis by simp
next
  case (assign_error oname ip e)
  with assms show ?thesis by (simp add: created_assign_error failure_defs)
next
  case (search_error oname addresses e)
  with assms show ?thesis by (simp add: created_search_error failure_defs)
next
  case (no_match oname)
  with assms show ?thesis by (simp add: created_no_match failure_defs)
next
  case (many_matches oname addresses)
  with assms show ?thesis by (simp add: created_many_matches failure_defs)
next
  case (update_error oname ip e)
  with assms show ?thesis by (simp add: created_update_error failure_defs)
qed

text \<open>
  The end-to-end scenario: \<open>default/foo\<close> with no reference, \<open>Assign\<close> answering
  \<open>10.0.0.5\<close>.
\<close>

lemma example_run:
  "IpAddressCreatedOrUpdated example_controller example_resource =
     ([Log Debug ''processing address default-foo'',
       Log Debug ''address is unassigned'',
       IpamAssign ''prod-default-foo'' (''10.0.0.5'', None),
       Log Info (''assigned 10.0.0.5 for 'default-foo'' @ [CHR 0x27]),
       IpAddressesUpdate ''default''
         (example_resource\<lparr>Status :=
            \<lparr>status_Address = ''10.0.0.5'', status_Name = ''prod-default-foo'',
             status_Provider = ''netbox''\<rparr>\<rparr>)
         None],
      Returned None)"
  by (simp add: IpAddressCreatedOrUpdated_def NameFor_def example_defs quoted_def)

theorem IpAddressCreatedOrUpdated_success_witness:
  "status_Address (Status example_resource) = []
   \<and> snd (IpAddressCreatedOrUpdated example_controller example_resource) = Returned None
   \<and> (\<exists>oname ip a2.
         NameFor example_controller example_resource = Returned oname
         \<and> (if spec_Ref (Spec example_resource) = []
             then Assign (Ipam example_controller) oname = (ip, None)
             else Search (Ipam example_controller) (spec_Ref (Spec example_resource)) True
                    = ([ip], None))
         \<and> filter is_update_call
              (fst (IpAddressCreatedOrUpdated example_controller example_resource))
             = [IpAddressesUpdate (Namespace example_resource) a2 None]
         \<and> status_Address (Status a2) = ip
         \<and> status_Name (Status a2) = oname
         \<and> status_Provider (Status a2) = IpamName example_controller
         \<and> a2\<lparr>Status := Status example_resource\<rparr> = example_resource)"
proof -
  have h1: "status_Address (Status example_resource) = []"
    by (simp add: example_defs)
  have h2: "snd (IpAddressCreatedOrUpdated example_controller example_resource)
              = Returned None"
    by (simp add: example_run)
  from IpAddressCreatedOrUpdated_success [OF h1 h2] h1 h2
  show ?thesis by (intro conjI)
qed

text \<open>
  C5. If the store's update fails after a successful allocation, the handler is to
  return an error whose message mentions the assigned address, and it makes no
  compensating \<open>Unassign\<close>. The second half holds (\<open>persistence_failure_no_release\<close>), and
  so does the first for an address without \<open>%\<close> (\<open>persistence_failure_mentions\<close>). For the
  address \<open>fe80::1%eth0\<close> the text of the returned error no longer holds the address:
  \<open>LogEventAndFail\<close> hands the message to \<open>fmt.Errorf\<close> as its format.
\<close>

theorem orphaned_allocation_percent:
  "snd (IpAddressCreatedOrUpdated zone_controller example_resource) =
     Returned (Some ''assigned address fe80::1%!e(MISSING)th0 for 'default-foo', but could not update object: conflict'')
   \<and> \<not> mentions ''assigned address fe80::1%!e(MISSING)th0 for 'default-foo', but could not update object: conflict'' ''fe80::1%eth0''
   \<and> list_ex failed_update (fst (IpAddressCreatedOrUpdated zone_controller example_resource))
   \<and> filter is_ipam_call (fst (IpAddressCreatedOrUpdated zone_controller example_resource)) =
       [IpamAssign ''prod-default-foo'' (''fe80::1%eth0'', None)]"
  by (simp add: IpAddressCreatedOrUpdated_def failure_defs example_defs zone_controller_def
        NameFor_def quoted_def Errorf_defs)

subsection \<open>Names\<close>

text \<open>The template of the example, parsed.\<close>

lemma Parse_example:
  "Parse ''{{.Tag}}-{{.Namespace}}-{{.Name}}'' =
     Some [FieldNode ''Tag'', TextNode ''-'', FieldNode ''Namespace'', TextNode ''-'',
           FieldNode ''Name'']"
  by (simp add: Parse_def text_nodes_def field_of_def is_letter_def is_digit_def)

text \<open>
  C6. For every resource with non-empty \<open>Spec.Name\<close>, \<open>NameFor\<close> returns \<open>Spec.Name\<close>
  verbatim, whatever the configured template, the tag, the namespace and the resource
  name are.
\<close>

theorem NameFor_explicit_name:
  "spec_Name (Spec a) \<noteq> [] \<Longrightarrow> NameFor c a = Returned (spec_Name (Spec a))"
  by (simp add: NameFor_def)

theorem NameFor_explicit_name_witness:
  "spec_Name (Spec (example_resource\<lparr>Spec := \<lparr>spec_Ref = [], spec_Name = ''web1''\<rparr>\<rparr>)) \<noteq> []
   \<and> NameFor misconfigured_controller
         (example_resource\<lparr>Spec := \<lparr>spec_Ref = [], spec_Name = ''web1''\<rparr>\<rparr>)
       = Returned ''web1''"
  using NameFor_explicit_name
    [of "example_resource\<lparr>Spec := \<lparr>spec_Ref = [], spec_Name = ''web1''\<rparr>\<rparr>"
        misconfigured_controller]
  by (simp add: example_resource_def)

text \<open>
  C7. For every resource with empty \<open>Spec.Name\<close>, \<open>NameFor\<close> returns the configured
  template rendered with the three inputs \<open>Tag\<close> (the controller's \<open>Tag\<close>), \<open>Namespace\<close>
  and \<open>Name\<close> (the resource's): what \<open>Execute\<close> wrote when it reports no error, and a
  panic with its error otherwise. In particular, with tag \<open>prod\<close>, namespace \<open>ns1\<close>,
  resource name \<open>a\<close> and the template \<open>{{.Tag}}-{{.Namespace}}-{{.Name}}\<close> the result is
  \<open>prod-ns1-a\<close>.
\<close>

theorem NameFor_template:
  "spec_Name (Spec a) = [] \<longrightarrow>
     (\<forall>text. NameTemplate c
                \<lparr>data_Tag = Tag c, data_Namespace = Namespace a, data_Name = Name a\<rparr>
               = (text, None) \<longrightarrow> NameFor c a = Returned text)
     \<and> (\<forall>text e. NameTemplate c
                \<lparr>data_Tag = Tag c, data_Namespace = Namespace a, data_Name = Name a\<rparr>
               = (text, Some e) \<longrightarrow> NameFor c a = Panicked e)
     \<and> (\<forall>t. Parse ''{{.Tag}}-{{.Namespace}}-{{.Name}}'' = Some t \<and> NameTemplate c = Execute t
              \<and> Tag c = ''prod'' \<and> Namespace a = ''ns1'' \<and> Name a = ''a''
            \<longrightarrow> NameFor c a = Returned ''prod-ns1-a'')"
  by (auto simp: NameFor_def Parse_example)

theorem NameFor_template_witness:
  "spec_Name (Spec (example_resource\<lparr>Namespace := ''ns1'', Name := ''a''\<rparr>)) = []
   \<and> Parse ''{{.Tag}}-{{.Namespace}}-{{.Name}}'' =
       Some [FieldNode ''Tag'', TextNode ''-'', FieldNode ''Namespace'', TextNode ''-'',
             FieldNode ''Name'']
   \<and> NameTemplate example_controller =
       Execute [FieldNode ''Tag'', TextNode ''-'', FieldNode ''Namespace'', TextNode ''-'',
                FieldNode ''Name'']
   \<and> Tag example_controller = ''prod''
   \<and> NameFor example_controller (example_resource\<lparr>Namespace := ''ns1'', Name := ''a''\<rparr>)
       = Returned ''prod-ns1-a''"
  using NameFor_template
    [of "example_resource\<lparr>Namespace := ''ns1'', Name := ''a''\<rparr>" example_controller]
    Parse_example
  by (simp add: example_defs)

subsection \<open>Failure reports\<close>

text \<open>
  C8. Whenever a handler returns a non-nil error, a Warning event about the resource has
  been created, and the text of the error is to equal the event's message. The event is
  always there and the error is \<open>fmt.Errorf\<close> of its message (\<open>failure_reports_created\<close>,
  \<open>failure_reports_deleted\<close>), which is the message itself when it has no \<open>%\<close>
  (\<open>Errorf_verbatim\<close>). When the backend's error text is \<open>pool is 100% full\<close> the two
  differ.
\<close>

theorem LogEventAndFail_percent:
  "snd (IpAddressCreatedOrUpdated full_pool_controller example_resource) =
     Returned (Some ''could not assign new address for 'default-foo': pool is 100%!f(MISSING)ull'')
   \<and> snd (IpAddressCreatedOrUpdated full_pool_controller example_resource) \<noteq>
     Returned (Some ''could not assign new address for 'default-foo': pool is 100% full'')
   \<and> filter is_event_call (fst (IpAddressCreatedOrUpdated full_pool_controller example_resource)) =
       [EventsCreate ''default''
          \<lparr>GenerateName = ''foo'',
           InvolvedObject =
             \<lparr>ref_Name = ''foo'', ref_Namespace = ''default'', ref_APIVersion = ''v1'',
              ref_UID = ''4f1c'', ref_Kind = ''IpAddress'', ref_ResourceVersion = ''1''\<rparr>,
           Message = ''could not assign new address for 'default-foo': pool is 100% full'',
           Type = ''Warning''\<rparr>
          None]"
  by (simp add: IpAddressCreatedOrUpdated_def failure_defs example_defs full_pool_controller_def
        NameFor_def quoted_def Errorf_defs)

subsection \<open>The order of name resolution and the status check\<close>

text \<open>
  C9. \<open>IpAddressCreatedOrUpdated\<close> calls \<open>NameFor\<close> before it looks at \<open>Status.Address\<close>:
  for every resource, assigned or not, the handler panics exactly when \<open>NameFor\<close> does,
  having done nothing but log its first line; and \<open>NameFor\<close> panics whenever \<open>Spec.Name\<close>
  is empty and rendering the template fails. So a failing template aborts the run also
  on the re-delivery of an assigned resource.
\<close>

theorem IpAddressCreatedOrUpdated_renders_first:
  "(snd (IpAddressCreatedOrUpdated c a) = Panicked e \<longleftrightarrow> NameFor c a = Panicked e)
   \<and> (NameFor c a = Panicked e \<longrightarrow>
        IpAddressCreatedOrUpdated c a =
          ([Log Debug (''processing address '' @ Namespace a @ ''-'' @ Name a)], Panicked e))
   \<and> (spec_Name (Spec a) = []
        \<and> snd (NameTemplate c \<lparr>data_Tag = Tag c, data_Namespace = Namespace a,
                                 data_Name = Name a\<rparr>) = Some e
      \<longrightarrow> NameFor c a = Panicked e)"
proof (intro conjI)
  show "snd (IpAddressCreatedOrUpdated c a) = Panicked e \<longleftrightarrow> NameFor c a = Panicked e"
    by (cases c a rule: created_cases) (simp_all add: created_branches failure_defs)
  show "NameFor c a = Panicked e \<longrightarrow>
        IpAddressCreatedOrUpdated c a =
          ([Log Debug (''processing address '' @ Namespace a @ ''-'' @ Name a)], Panicked e)"
    by (simp add: created_panic)
  show "spec_Name (Spec a) = []
        \<and> snd (NameTemplate c \<lparr>data_Tag = Tag c, data_Namespace = Namespace a,
                                 data_Name = Name a\<rparr>) = Some e
      \<longrightarrow> NameFor c a = Panicked e"
    by (auto simp: NameFor_def split: prod.splits)
qed

theorem IpAddressCreatedOrUpdated_renders_first_witness:
  "status_Address (Status assigned_resource) = ''10.0.0.5''
   \<and> spec_Name (Spec assigned_resource) = []
   \<and> snd (NameTemplate misconfigured_controller
            \<lparr>data_Tag = ''prod'', data_Namespace = ''default'', data_Name = ''foo''\<rparr>)
       = Some ''can't evaluate field Host in type struct { Tag string; Namespace string; Name string }''
   \<and> snd (IpAddressCreatedOrUpdated misconfigured_controller assigned_resource)
       = Panicked ''can't evaluate field Host in type struct { Tag string; Namespace string; Name string }''"
  using IpAddressCreatedOrUpdated_renders_first
    [of misconfigured_controller assigned_resource
        "''can't evaluate field Host in type struct { Tag string; Namespace string; Name string }''"]
  by (simp add: example_defs)

subsection \<open>An empty provider on deletion\<close>

text \<open>
  C10. On deletion an empty \<open>Status.Provider\<close> counts as this instance's: for every
  resource with empty \<open>Status.Provider\<close>, non-empty \<open>Status.Address\<close> and empty \<open>Spec.Ref\<close>,
  \<open>IpAddressDeleted\<close> does call \<open>Unassign(Status.Address)\<close>. The skip for another
  provider's resource, known by its log line, is taken exactly when \<open>Status.Provider\<close> is
  non-empty and differs from this instance's provider tag, the controller's \<open>IpamName\<close>.
\<close>

theorem IpAddressDeleted_empty_provider:
  "(status_Provider (Status a) = [] \<and> status_Address (Status a) \<noteq> []
      \<and> spec_Ref (Spec a) = []
    \<longrightarrow> IpamUnassign (status_Address (Status a))
          (Unassign (Ipam c) (status_Address (Status a))) \<in> set (fst (IpAddressDeleted c a)))
   \<and> (Log Debug (''ignoring address, created by provider ''
                   @ quoted (status_Provider (Status a))) \<in> set (fst (IpAddressDeleted c a))
        \<longleftrightarrow> status_Provider (Status a) \<noteq> [] \<and> status_Provider (Status a) \<noteq> IpamName c)"
  by (auto simp: IpAddressDeleted_def failure_defs split: option.splits)

theorem IpAddressDeleted_empty_provider_witness:
  "status_Provider (Status unlabelled_resource) = []
   \<and> status_Address (Status unlabelled_resource) = ''10.0.0.5''
   \<and> spec_Ref (Spec unlabelled_resource) = []
   \<and> IpamUnassign ''10.0.0.5'' None
        \<in> set (fst (IpAddressDeleted example_controller unlabelled_resource))
   \<and> Log Debug (''ignoring address, created by provider '' @ quoted ''other'')
        \<in> set (fst (IpAddressDeleted example_controller foreign_resource))"
  using IpAddressDeleted_empty_provider [of unlabelled_resource example_controller]
    IpAddressDeleted_empty_provider [of foreign_resource example_controller]
  by (simp add: example_defs unlabelled_resource_def)

end
